theory Spec2Isabelle
  imports Main "HOL-Library.Word"
begin

section \<open>Data model (main.go, miekg/dns message types)\<close>

text \<open>
  \<^verbatim>\<open>type ServerConfig struct { Enabled bool; Port int; Interface string }\<close>
  The port is a Go \<^verbatim>\<open>int\<close>; the program only compares and copies it, so it is an
  \<^typ>\<open>int\<close> here.
\<close>

record ServerConfig =
  Enabled :: bool
  Port :: int
  Interface :: string

text \<open>
  \<^verbatim>\<open>type Config struct { Records map[string]string; FallbackDNS string;
                       Server struct { UDP ServerConfig; TCP ServerConfig } }\<close>
  The nested anonymous struct \<^verbatim>\<open>Server\<close> is flattened into the two fields
  \<open>ServerUDP\<close> and \<open>ServerTCP\<close>. A nil map and an empty map read alike.
\<close>

record Config =
  Records :: "string \<rightharpoonup> string"
  FallbackDNS :: string
  ServerUDP :: ServerConfig
  ServerTCP :: ServerConfig

text \<open>The zero value of \<^verbatim>\<open>Config\<close>: what \<^verbatim>\<open>var newConfig Config\<close> holds.\<close>

definition zeroServerConfig :: ServerConfig where
  "zeroServerConfig = \<lparr>Enabled = False, Port = 0, Interface = ''''\<rparr>"

definition zeroConfig :: Config where
  "zeroConfig = \<lparr>Records = Map.empty, FallbackDNS = '''',
     ServerUDP = zeroServerConfig, ServerTCP = zeroServerConfig\<rparr>"

text \<open>\<^verbatim>\<open>dns.Question\<close>: name in presentation format, type and class.\<close>

record Question =
  Name :: string
  Qtype :: "16 word"
  Qclass :: "16 word"

text \<open>
  \<^verbatim>\<open>dns.Msg\<close> with its embedded \<^verbatim>\<open>MsgHdr\<close>. The resource-record type \<open>'rr\<close> is
  the library's \<^verbatim>\<open>dns.RR\<close>; the program never looks inside one.
\<close>

record 'rr Msg =
  MsgId :: "16 word"
  Response :: bool
  Opcode :: int
  Authoritative :: bool
  Truncated :: bool
  RecursionDesired :: bool
  RecursionAvailable :: bool
  ZeroBit :: bool
  AuthenticatedData :: bool
  CheckingDisabled :: bool
  Rcode :: int
  Compress :: bool
  Question :: "Question list"
  Answer :: "'rr list"
  Ns :: "'rr list"
  Extra :: "'rr list"

abbreviation TypeA :: "16 word" where "TypeA \<equiv> 1"
abbreviation TypeMX :: "16 word" where "TypeMX \<equiv> 15"
abbreviation ClassINET :: "16 word" where "ClassINET \<equiv> 1"
abbreviation OpcodeQuery :: int where "OpcodeQuery \<equiv> 0"
abbreviation RcodeSuccess :: int where "RcodeSuccess \<equiv> 0"
abbreviation RcodeServerFailure :: int where "RcodeServerFailure \<equiv> 2"
abbreviation RcodeNameError :: int where "RcodeNameError \<equiv> 3"
abbreviation RcodeNotImplemented :: int where "RcodeNotImplemented \<equiv> 4"

text \<open>\<^verbatim>\<open>new(dns.Msg)\<close>: every field at its zero value.\<close>

definition newMsg :: "'rr Msg" where
  "newMsg = \<lparr>MsgId = 0, Response = False, Opcode = 0, Authoritative = False,
     Truncated = False, RecursionDesired = False, RecursionAvailable = False,
     ZeroBit = False, AuthenticatedData = False, CheckingDisabled = False,
     Rcode = 0, Compress = False, Question = [], Answer = [], Ns = [], Extra = []\<rparr>"

text \<open>
  Modelled from the spec: \<^verbatim>\<open>(*dns.Msg).SetReply(request)\<close> belongs to the library
  miekg/dns (v1.1.59 in go.mod), whose source is not in the repository. The spec has the
  reply carry the reply flag and the transaction identifier of the request, and a local
  hit answered with NOERROR; the library's function copies the id and the opcode, sets the
  response flag, copies the rd and cd bits of a query, sets the response code to
  \<^verbatim>\<open>RcodeSuccess\<close> and keeps the first question only.
\<close>

definition SetReply :: "'rr Msg \<Rightarrow> 'rr Msg \<Rightarrow> 'rr Msg" where
  "SetReply m request =
     (let m1 = m\<lparr>MsgId := MsgId request, Response := True, Opcode := Opcode request\<rparr>;
          m2 = (if Opcode m1 = OpcodeQuery
                then m1\<lparr>RecursionDesired := RecursionDesired request,
                        CheckingDisabled := CheckingDisabled request\<rparr>
                else m1);
          m3 = m2\<lparr>Rcode := RcodeSuccess\<rparr>
      in (case Question request of [] \<Rightarrow> m3 | q # _ \<Rightarrow> m3\<lparr>Question := [q]\<rparr>))"

section \<open>The libraries the program calls\<close>

text \<open>
  The program reaches the outside world through four library calls, taken as parameters:
  \<^item> \<open>NewRR\<close>: \<^verbatim>\<open>dns.NewRR(s)\<close>, the zone-file parser; \<open>None\<close> is its error;
  \<^item> \<open>Exchange\<close>: \<^verbatim>\<open>c.Exchange(m, address)\<close> on a client with \<^verbatim>\<open>c.Net = net\<close>. It is
    given the network name, the message and the address, and the state \<open>'w\<close> of the
    network, which it returns updated; \<open>None\<close> is its error;
  \<^item> \<open>MapToLower\<close>: \<^verbatim>\<open>strings.Map(unicode.ToLower, s)\<close>, the path \<^verbatim>\<open>strings.ToLower\<close>
    takes on a string with a byte outside ASCII;
  \<^item> \<open>Unmarshal\<close>: \<^verbatim>\<open>yaml.Unmarshal(data, &newConfig)\<close> on a zero \<^verbatim>\<open>Config\<close>; \<open>None\<close> is
    its error. A field the document leaves out keeps its zero value, so a document that
    sets \<^verbatim>\<open>enabled: false\<close> and one that leaves \<^verbatim>\<open>enabled\<close> out decode alike.
\<close>

record ('rr, 'w) libs =
  NewRR :: "string \<Rightarrow> 'rr option"
  Exchange :: "string \<Rightarrow> 'rr Msg \<Rightarrow> string \<Rightarrow> 'w \<Rightarrow> 'rr Msg option \<times> 'w"
  MapToLower :: "string \<Rightarrow> string"
  Unmarshal :: "string \<Rightarrow> Config option"

section \<open>String helpers (Go's strings package)\<close>

text \<open>\<^verbatim>\<open>strings.HasSuffix\<close> and \<^verbatim>\<open>strings.TrimSuffix\<close>, on byte strings.\<close>

definition HasSuffix :: "string \<Rightarrow> string \<Rightarrow> bool" where
  "HasSuffix s suffix =
     (length suffix \<le> length s \<and> drop (length s - length suffix) s = suffix)"

definition TrimSuffix :: "string \<Rightarrow> string \<Rightarrow> string" where
  "TrimSuffix s suffix =
     (if HasSuffix s suffix then take (length s - length suffix) s else s)"

text \<open>
  \<^verbatim>\<open>strings.ToLower\<close>: a string of ASCII bytes only is mapped byte by byte
  (\<^verbatim>\<open>'A'..'Z'\<close> moved by \<^verbatim>\<open>'a' - 'A'\<close>), and returned as it is when it has no upper-case
  letter; any other string goes through \<^verbatim>\<open>strings.Map(unicode.ToLower, s)\<close>.
\<close>

definition isASCII :: "char \<Rightarrow> bool" where
  "isASCII c = ((of_char c :: nat) < 128)"

definition isUpperASCII :: "char \<Rightarrow> bool" where
  "isUpperASCII c = (65 \<le> (of_char c :: nat) \<and> (of_char c :: nat) \<le> 90)"

definition lowerASCII :: "char \<Rightarrow> char" where
  "lowerASCII c = (if isUpperASCII c then char_of ((of_char c :: nat) + 32) else c)"

definition ToLower :: "('rr, 'w) libs \<Rightarrow> string \<Rightarrow> string" where
  "ToLower L s =
     (if list_all isASCII s
      then (if list_ex isUpperASCII s then map lowerASCII s else s)
      else MapToLower L s)"

section \<open>handleDNSRequest\<close>

text \<open>The key looked up in \<^verbatim>\<open>config.Records\<close> for a question.\<close>

definition lookupKey :: "('rr, 'w) libs \<Rightarrow> Question \<Rightarrow> string" where
  "lookupKey L q = ToLower L (TrimSuffix (Name q) ''.'')"

text \<open>
  One iteration of \<^verbatim>\<open>for _, q := range r.Question\<close>, on the reply under construction
  and the state of the network. An A question whose key is in the records is answered
  from them (or fails with SERVFAIL when \<^verbatim>\<open>dns.NewRR\<close> rejects the text
  \<^verbatim>\<open>"<name> A <ip>"\<close>) and the loop continues; every other question falls through to the
  relay: NXDOMAIN without a fallback, else one exchange with \<^verbatim>\<open>fallbackDNS+":53"\<close>,
  whose answer replaces the reply and whose error sets SERVFAIL.
\<close>

definition handleQuestion ::
  "('rr, 'w) libs \<Rightarrow> Config \<Rightarrow> string \<Rightarrow> 'rr Msg \<Rightarrow> Question \<Rightarrow> 'rr Msg \<times> 'w \<Rightarrow> 'rr Msg \<times> 'w"
where
  "handleQuestion L config net r q s =
     (let msg = fst s; w = snd s; fallbackDNS = FallbackDNS config in
      case (if Qtype q = TypeA then Records config (lookupKey L q) else None) of
        Some ip \<Rightarrow>
          (case NewRR L (Name q @ '' A '' @ ip) of
             Some rr \<Rightarrow> (msg\<lparr>Answer := Answer msg @ [rr]\<rparr>, w)
           | None \<Rightarrow> (msg\<lparr>Rcode := RcodeServerFailure\<rparr>, w))
      | None \<Rightarrow>
          (if fallbackDNS = '''' then (msg\<lparr>Rcode := RcodeNameError\<rparr>, w)
           else (case Exchange L net r (fallbackDNS @ '':53'') w of
                   (Some upstream, w') \<Rightarrow> (upstream, w')
                 | (None, w') \<Rightarrow> (msg\<lparr>Rcode := RcodeServerFailure\<rparr>, w'))))"

text \<open>The loop over the questions, in order.\<close>

fun handleQuestions ::
  "('rr, 'w) libs \<Rightarrow> Config \<Rightarrow> string \<Rightarrow> 'rr Msg \<Rightarrow> Question list \<Rightarrow> 'rr Msg \<times> 'w \<Rightarrow> 'rr Msg \<times> 'w"
where
  "handleQuestions L config net r [] s = s"
| "handleQuestions L config net r (q # qs) s =
     handleQuestions L config net r qs (handleQuestion L config net r q s)"

text \<open>The reply before the loop: \<^verbatim>\<open>msg.SetReply(r); msg.Authoritative = true\<close>.\<close>

definition initialReply :: "'rr Msg \<Rightarrow> 'rr Msg" where
  "initialReply r = (SetReply newMsg r)\<lparr>Authoritative := True\<rparr>"

text \<open>
  \<^verbatim>\<open>handleDNSRequest(w, r)\<close>, for the configuration in effect, the network name
  \<^verbatim>\<open>w.RemoteAddr().Network()\<close> of the requester and the state of the network. The result is
  the message handed to \<^verbatim>\<open>w.WriteMsg\<close> (whose error is only logged) and the state of the
  network afterwards. The program reads the global configuration anew for each question,
  under the read lock; here one configuration serves the whole request, which is the
  program's behaviour when no reload falls between two questions of a message.
\<close>

definition handleDNSRequest ::
  "('rr, 'w) libs \<Rightarrow> Config \<Rightarrow> string \<Rightarrow> 'rr Msg \<Rightarrow> 'w \<Rightarrow> 'rr Msg \<times> 'w"
where
  "handleDNSRequest L config net r w =
     handleQuestions L config net r (Question r) (initialReply r, w)"

section \<open>loadConfig and watchConfig\<close>

datatype load_error = ReadError | UnmarshalError

text \<open>
  The defaults \<^verbatim>\<open>loadConfig\<close> applies after storing the new configuration:
  \<^verbatim>\<open>if config.Server.UDP.Port <= 0 { config.Server.UDP.Port = 53 }\<close>, and the same for TCP.
\<close>

definition applyPortDefaults :: "Config \<Rightarrow> Config" where
  "applyPortDefaults c =
     (let c1 = (if Port (ServerUDP c) \<le> 0
                then c\<lparr>ServerUDP := (ServerUDP c)\<lparr>Port := 53\<rparr>\<rparr> else c);
          c2 = (if Port (ServerTCP c1) \<le> 0
                then c1\<lparr>ServerTCP := (ServerTCP c1)\<lparr>Port := 53\<rparr>\<rparr> else c1)
      in c2)"

text \<open>
  \<^verbatim>\<open>loadConfig()\<close>. \<open>file\<close> is what \<^verbatim>\<open>os.ReadFile(configFile)\<close> returns (\<open>None\<close> for
  its error), \<open>config\<close> the global before the call. The result is the returned error
  (\<open>None\<close> for \<^verbatim>\<open>nil\<close>) and the global after the call. Both error returns come before
  the assignment \<^verbatim>\<open>config = newConfig\<close>.
\<close>

definition loadConfig ::
  "('rr, 'w) libs \<Rightarrow> string option \<Rightarrow> Config \<Rightarrow> load_error option \<times> Config"
where
  "loadConfig L file config =
     (case file of
        None \<Rightarrow> (Some ReadError, config)
      | Some data \<Rightarrow>
          (case Unmarshal L data of
             None \<Rightarrow> (Some UnmarshalError, config)
           | Some newConfig \<Rightarrow> (None, applyPortDefaults newConfig)))"

text \<open>
  The operations of an \<^verbatim>\<open>fsnotify.Event\<close>, a bit mask in the library, and one turn of the
  \<^verbatim>\<open>select\<close> loop of \<^verbatim>\<open>watchConfig\<close> on an event: a write or a create reloads, and the
  error of the reload is logged and dropped.
\<close>

datatype Op = Create | Write | Remove | Rename | Chmod

definition watchConfigEvent ::
  "('rr, 'w) libs \<Rightarrow> Op set \<Rightarrow> string option \<Rightarrow> Config \<Rightarrow> Config"
where
  "watchConfigEvent L event file config =
     (if Write \<in> event \<or> Create \<in> event
      then snd (loadConfig L file config) else config)"

section \<open>main: startup\<close>

text \<open>
  What \<^verbatim>\<open>main\<close> does up to the point where it blocks on \<^verbatim>\<open>errChan\<close>: the initial load
  (fatal on error), the defaults, and one listener per enabled transport, counted in
  \<^verbatim>\<open>servers\<close>; zero servers is fatal. The configuration is read here as \<^verbatim>\<open>main\<close> left it,
  that is with no reload in between.
\<close>

datatype fatal = FailedToLoadInitialConfig load_error | NoDNSServersEnabled

record listener =
  Net :: string
  AddrInterface :: string
  AddrPort :: int

datatype startup = Fatal fatal | Serving Config nat "listener list"

text \<open>
  \<^verbatim>\<open>if !config.Server.UDP.Enabled && !config.Server.TCP.Enabled { both = true }\<close>
\<close>

definition applyEnabledDefault :: "Config \<Rightarrow> Config" where
  "applyEnabledDefault c =
     (if \<not> Enabled (ServerUDP c) \<and> \<not> Enabled (ServerTCP c)
      then c\<lparr>ServerUDP := (ServerUDP c)\<lparr>Enabled := True\<rparr>,
             ServerTCP := (ServerTCP c)\<lparr>Enabled := True\<rparr>\<rparr>
      else c)"

definition main :: "('rr, 'w) libs \<Rightarrow> string option \<Rightarrow> startup" where
  "main L file =
     (case loadConfig L file zeroConfig of
        (Some err, _) \<Rightarrow> Fatal (FailedToLoadInitialConfig err)
      | (None, loaded) \<Rightarrow>
          (let config = applyEnabledDefault (applyPortDefaults loaded);
               servers0 = (0::nat);
               udp = ServerUDP config;
               (servers1, started1) =
                  (if Enabled udp
                   then (servers0 + 1,
                         [\<lparr>Net = ''udp'', AddrInterface = Interface udp, AddrPort = Port udp\<rparr>])
                   else (servers0, []));
               tcp = ServerTCP config;
               (servers2, started2) =
                  (if Enabled tcp
                   then (servers1 + 1,
                         started1 @
                         [\<lparr>Net = ''tcp'', AddrInterface = Interface tcp, AddrPort = Port tcp\<rparr>])
                   else (servers1, started1))
           in if servers2 = 0 then Fatal NoDNSServersEnabled
              else Serving config servers2 started2))"

section \<open>Outcomes of one question\<close>

text \<open>
  The conditions the handler branches on, named: the question has a local match (an A
  question whose key is in the records); the local record cannot be built; the question
  is relayed; the outcome of the exchange of the relay, started in the network state
  \<open>w\<close>.
\<close>

definition localMatch :: "('rr, 'w) libs \<Rightarrow> Config \<Rightarrow> Question \<Rightarrow> bool" where
  "localMatch L config q =
     (Qtype q = TypeA \<and> Records config (lookupKey L q) \<noteq> None)"

definition localRecordFails :: "('rr, 'w) libs \<Rightarrow> Config \<Rightarrow> Question \<Rightarrow> bool" where
  "localRecordFails L config q =
     (Qtype q = TypeA \<and>
      (case Records config (lookupKey L q) of
         None \<Rightarrow> False
       | Some ip \<Rightarrow> NewRR L (Name q @ '' A '' @ ip) = None))"

definition relayed :: "('rr, 'w) libs \<Rightarrow> Config \<Rightarrow> Question \<Rightarrow> bool" where
  "relayed L config q = (\<not> localMatch L config q \<and> FallbackDNS config \<noteq> '''')"

definition relayResult ::
  "('rr, 'w) libs \<Rightarrow> Config \<Rightarrow> string \<Rightarrow> 'rr Msg \<Rightarrow> 'w \<Rightarrow> 'rr Msg option"
where
  "relayResult L config net r w = fst (Exchange L net r (FallbackDNS config @ '':53'') w)"

section \<open>Sample environment\<close>

text \<open>
  A concrete instance of the libraries, for evaluating the program on examples. A resource
  record is its zone-file text; the parser accepts the listed texts only. The network is
  a log of what was sent and a queue of the outcomes of the coming exchanges. The YAML
  decoder knows two documents and rejects every other text.
\<close>

type_synonym sample_rr = string
type_synonym sample_net = "(string \<times> sample_rr Msg \<times> string) list \<times> sample_rr Msg option list"

definition sampleNewRR :: "string \<Rightarrow> sample_rr option" where
  "sampleNewRR s =
     (if List.member
           [''a.test. A 10.0.0.1'', ''A.Test. A 10.0.0.1'',
            ''a.test'' @ [CHR 0x5C] @ ''.. A 10.0.0.1''] s
      then Some s else None)"

definition sampleExchange ::
  "string \<Rightarrow> sample_rr Msg \<Rightarrow> string \<Rightarrow> sample_net \<Rightarrow> sample_rr Msg option \<times> sample_net"
where
  "sampleExchange net m address w =
     (case snd w of
        [] \<Rightarrow> (None, (fst w @ [(net, m, address)], []))
      | x # xs \<Rightarrow> (x, (fst w @ [(net, m, address)], xs)))"

definition sampleDocument :: string where
  "sampleDocument = ''server: {udp: {enabled: false}, tcp: {enabled: false}}''"

definition sampleDocument2 :: string where
  "sampleDocument2 =
     ''{records: {a.test: 10.0.0.1}, server: {udp: {enabled: true, port: 5353}}}''"

definition sampleUnmarshal :: "string \<Rightarrow> Config option" where
  "sampleUnmarshal data =
     (if data = sampleDocument then Some zeroConfig
      else if data = sampleDocument2
      then Some (zeroConfig\<lparr>Records := [''a.test'' \<mapsto> ''10.0.0.1''],
                   ServerUDP := \<lparr>Enabled = True, Port = 5353, Interface = ''''\<rparr>\<rparr>)
      else None)"

definition sampleLibs :: "(sample_rr, sample_net) libs" where
  "sampleLibs = \<lparr>NewRR = sampleNewRR, Exchange = sampleExchange,
     MapToLower = map lowerASCII, Unmarshal = sampleUnmarshal\<rparr>"

definition sampleConfig :: Config where
  "sampleConfig = \<lparr>Records = [''a.test'' \<mapsto> ''10.0.0.1'', ''bad.test'' \<mapsto> ''10.0.0.256''],
     FallbackDNS = '''',
     ServerUDP = \<lparr>Enabled = True, Port = 53, Interface = ''''\<rparr>,
     ServerTCP = \<lparr>Enabled = True, Port = 53, Interface = ''''\<rparr>\<rparr>"

definition sampleQuery :: "string \<Rightarrow> 16 word \<Rightarrow> sample_rr Msg" where
  "sampleQuery name qtype =
     newMsg\<lparr>MsgId := 4660, RecursionDesired := True,
       Question := [\<lparr>Name = name, Qtype = qtype, Qclass = ClassINET\<rparr>]\<rparr>"

text \<open>
  The same configuration with a fallback resolver; an upstream reply with a given
  response code and answer section; a message with several questions.
\<close>

definition sampleFallbackConfig :: Config where
  "sampleFallbackConfig = sampleConfig\<lparr>FallbackDNS := ''10.0.0.53''\<rparr>"

definition sampleUpstream :: "int \<Rightarrow> sample_rr list \<Rightarrow> sample_rr Msg" where
  "sampleUpstream rcode answers =
     newMsg\<lparr>MsgId := 4660, Response := True, RecursionDesired := True,
       RecursionAvailable := True, Rcode := rcode, Answer := answers\<rparr>"

definition sampleQueries :: "(string \<times> 16 word) list \<Rightarrow> sample_rr Msg" where
  "sampleQueries qs =
     newMsg\<lparr>MsgId := 4660, RecursionDesired := True,
       Question := map (\<lambda>(name, qtype). \<lparr>Name = name, Qtype = qtype, Qclass = ClassINET\<rparr>) qs\<rparr>"

text \<open>
  A name whose last label ends in a dot byte, \<^verbatim>\<open>a.test\..\<close> in presentation format (the
  library escapes a dot inside a label with a backslash), and a configuration whose only
  key is that name without its final dot, \<^verbatim>\<open>a.test\.\<close>: a key with a trailing dot.
\<close>

definition escapedDotName :: string where
  "escapedDotName = ''a.test'' @ [CHR 0x5C] @ ''..''"

definition escapedDotKey :: string where
  "escapedDotKey = ''a.test'' @ [CHR 0x5C] @ ''.''"

definition sampleDotConfig :: Config where
  "sampleDotConfig = sampleConfig\<lparr>Records := [escapedDotKey \<mapsto> ''10.0.0.1'']\<rparr>"

text \<open>
  A message with three questions, two upstream replies, and a configuration with a key
  that has upper-case letters and a key that ends in a dot.
\<close>

definition sampleThreeQuestions :: "sample_rr Msg" where
  "sampleThreeQuestions =
     sampleQueries [(''x.test.'', TypeMX), (''y.test.'', TypeMX), (''a.test.'', TypeA)]"

definition sampleUpstreamX :: "sample_rr Msg" where
  "sampleUpstreamX = sampleUpstream RcodeSuccess [''x.test. MX 10 mail.x.test.'']"

definition sampleUpstreamY :: "sample_rr Msg" where
  "sampleUpstreamY = sampleUpstream RcodeSuccess [''y.test. MX 10 mail.y.test.'']"

definition sampleUpperConfig :: Config where
  "sampleUpperConfig =
     sampleConfig\<lparr>Records := [''A.Test'' \<mapsto> ''10.0.0.2'', ''a.test.'' \<mapsto> ''10.0.0.3'']\<rparr>"

section \<open>Lemmas on the handler\<close>

lemma initialReply_fields:
  "Rcode (initialReply r) = RcodeSuccess" "Answer (initialReply r) = []"
  by (simp_all add: initialReply_def SetReply_def newMsg_def Let_def split: list.splits)

lemma handleDNSRequest_single:
  "Question r = [q] \<Longrightarrow>
   handleDNSRequest L config net r w = handleQuestion L config net r q (initialReply r, w)"
  by (simp add: handleDNSRequest_def)

text \<open>
  The loop over a concatenation of question lists runs the first list, then the second.
\<close>

lemma handleQuestions_append:
  "handleQuestions L config net r (xs @ ys) s =
   handleQuestions L config net r ys (handleQuestions L config net r xs s)"
  by (induction xs arbitrary: s) simp_all

text \<open>
  Lower-casing: the ASCII path never yields an upper-case ASCII letter, and it maps the dot,
  and nothing else, to the dot.
\<close>

lemma lowerASCII_not_upper: "\<not> isUpperASCII (lowerASCII c)"
  by (simp add: lowerASCII_def isUpperASCII_def)

lemma map_lowerASCII_no_upper: "\<not> list_ex isUpperASCII (map lowerASCII s)"
  by (induction s) (simp_all add: lowerASCII_not_upper)

lemma ToLower_no_upper:
  assumes "\<forall>s. \<not> list_ex isUpperASCII (MapToLower L s)"
  shows "\<not> list_ex isUpperASCII (ToLower L s)"
  using assms by (simp add: ToLower_def map_lowerASCII_no_upper)

lemma lowerASCII_dot: "lowerASCII c = CHR ''.'' \<longleftrightarrow> c = CHR ''.''"
  by (auto simp add: lowerASCII_def isUpperASCII_def char_of_eq_iff take_bit_eq_mod)

text \<open>
  Suffixes: a final dot, two final dots, and what \<^verbatim>\<open>TrimSuffix(s, ".")\<close> leaves.
\<close>

lemma HasSuffix_dot: "HasSuffix s ''.'' \<longleftrightarrow> s \<noteq> [] \<and> last s = CHR ''.''"
proof (cases s rule: rev_cases)
  case Nil
  then show ?thesis by (simp add: HasSuffix_def)
next
  case (snoc ys y)
  then show ?thesis by (auto simp add: HasSuffix_def)
qed

lemma HasSuffix_dotdot:
  "HasSuffix (ys @ [y]) ''..'' \<longleftrightarrow> HasSuffix ys ''.'' \<and> y = CHR ''.''"
proof (cases ys rule: rev_cases)
  case Nil
  then show ?thesis by (simp add: HasSuffix_def)
next
  case (snoc zs z)
  then show ?thesis by (auto simp add: HasSuffix_def)
qed

lemma TrimSuffix_dot_snoc:
  "TrimSuffix (ys @ [y]) ''.'' = (if y = CHR ''.'' then ys else ys @ [y])"
  by (simp add: TrimSuffix_def HasSuffix_dot)

lemma TrimSuffix_dot_no_dot:
  assumes "\<not> HasSuffix s ''..''"
  shows "\<not> HasSuffix (TrimSuffix s ''.'') ''.''"
proof (cases s rule: rev_cases)
  case Nil
  then show ?thesis by (simp add: TrimSuffix_def HasSuffix_def)
next
  case (snoc ys y)
  with assms show ?thesis
    by (auto simp add: TrimSuffix_dot_snoc HasSuffix_dotdot HasSuffix_dot)
qed

lemma TrimSuffix_ASCII: "list_all isASCII s \<Longrightarrow> list_all isASCII (TrimSuffix s suffix)"
  by (auto simp add: TrimSuffix_def list_all_iff dest: in_set_takeD)

lemma HasSuffix_dot_map_lower: "HasSuffix (map lowerASCII s) ''.'' \<longleftrightarrow> HasSuffix s ''.''"
  by (cases s rule: rev_cases) (simp_all add: HasSuffix_dot lowerASCII_dot)

lemma ToLower_ASCII_dot:
  "list_all isASCII s \<Longrightarrow> HasSuffix (ToLower L s) ''.'' \<longleftrightarrow> HasSuffix s ''.''"
  by (simp add: ToLower_def HasSuffix_dot_map_lower)

text \<open>
  Keys the lookup never produces, and the handler on a configuration from which a key
  that no question of the message looks up has been removed.
\<close>

lemma lookupKey_upper:
  assumes "list_ex isUpperASCII k" and "\<forall>s. \<not> list_ex isUpperASCII (MapToLower L s)"
  shows "lookupKey L q \<noteq> k"
  using assms ToLower_no_upper [of L "TrimSuffix (Name q) ''.''"]
  by (auto simp add: lookupKey_def)

lemma lookupKey_dot:
  assumes "HasSuffix k ''.''" and "list_all isASCII (Name q)" and "\<not> HasSuffix (Name q) ''..''"
  shows "lookupKey L q \<noteq> k"
proof
  assume "lookupKey L q = k"
  with assms(1) have "HasSuffix (ToLower L (TrimSuffix (Name q) ''.'')) ''.''"
    by (simp add: lookupKey_def)
  with assms(2) have "HasSuffix (TrimSuffix (Name q) ''.'') ''.''"
    by (simp add: ToLower_ASCII_dot TrimSuffix_ASCII)
  with assms(3) show False
    by (simp add: TrimSuffix_dot_no_dot)
qed

lemma handleQuestion_remove_key:
  "lookupKey L q \<noteq> k \<Longrightarrow>
   handleQuestion L (config\<lparr>Records := (Records config)(k := None)\<rparr>) net r q s =
   handleQuestion L config net r q s"
  by (simp add: handleQuestion_def)

lemma handleQuestions_remove_key:
  "list_all (\<lambda>q. lookupKey L q \<noteq> k) qs \<Longrightarrow>
   handleQuestions L (config\<lparr>Records := (Records config)(k := None)\<rparr>) net r qs s =
   handleQuestions L config net r qs s"
  by (induction qs arbitrary: s) (simp_all add: handleQuestion_remove_key)

section \<open>Lemmas on loading and startup\<close>

text \<open>
  What the port defaults change, and that applying them twice changes nothing more.
\<close>

lemma applyPortDefaults_fields:
  "Port (ServerUDP (applyPortDefaults c)) = (if Port (ServerUDP c) \<le> 0 then 53 else Port (ServerUDP c))"
  "Port (ServerTCP (applyPortDefaults c)) = (if Port (ServerTCP c) \<le> 0 then 53 else Port (ServerTCP c))"
  "Enabled (ServerUDP (applyPortDefaults c)) = Enabled (ServerUDP c)"
  "Enabled (ServerTCP (applyPortDefaults c)) = Enabled (ServerTCP c)"
  "Interface (ServerUDP (applyPortDefaults c)) = Interface (ServerUDP c)"
  "Interface (ServerTCP (applyPortDefaults c)) = Interface (ServerTCP c)"
  "Records (applyPortDefaults c) = Records c"
  "FallbackDNS (applyPortDefaults c) = FallbackDNS c"
  by (simp_all add: applyPortDefaults_def Let_def)

lemma applyPortDefaults_idem: "applyPortDefaults (applyPortDefaults c) = applyPortDefaults c"
  by (simp add: applyPortDefaults_def Let_def)

text \<open>
  The check \<^verbatim>\<open>if servers == 0\<close> of \<^verbatim>\<open>main\<close> never fires: after the enabled default at
  least one transport is enabled.
\<close>

lemma main_never_without_servers: "main L file \<noteq> Fatal NoDNSServersEnabled"
  by (simp add: main_def applyEnabledDefault_def Let_def split: prod.splits option.splits)

section \<open>Claims\<close>

text \<open>
  Claim C3. With an empty fallback, a message with exactly one question whose key is not
  in the records is answered with NXDOMAIN (\<^verbatim>\<open>RcodeNameError\<close>), and the reply has no
  answer record; no exchange takes place.
\<close>

theorem C3_absent_name_no_fallback_nxdomain:
  assumes "FallbackDNS config = ''''"
    and "Question r = [q]"
    and "Records config (lookupKey L q) = None"
  shows "Rcode (fst (handleDNSRequest L config net r w)) = RcodeNameError
       \<and> Answer (fst (handleDNSRequest L config net r w)) = []
       \<and> snd (handleDNSRequest L config net r w) = w"
  using assms
  by (simp add: handleDNSRequest_single handleQuestion_def initialReply_fields)

theorem C3_absent_name_no_fallback_nxdomain_witness:
  "FallbackDNS sampleConfig = ''''
   \<and> Question (sampleQuery ''b.test.'' TypeA) = [\<lparr>Name = ''b.test.'', Qtype = TypeA, Qclass = ClassINET\<rparr>]
   \<and> Records sampleConfig
       (lookupKey sampleLibs \<lparr>Name = ''b.test.'', Qtype = TypeA, Qclass = ClassINET\<rparr>) = None
   \<and> Rcode (fst (handleDNSRequest sampleLibs sampleConfig ''udp'' (sampleQuery ''b.test.'' TypeA) ([], [])))
       = RcodeNameError
   \<and> Answer (fst (handleDNSRequest sampleLibs sampleConfig ''udp'' (sampleQuery ''b.test.'' TypeA) ([], [])))
       = []"
proof -
  let ?q = "\<lparr>Name = ''b.test.'', Qtype = TypeA, Qclass = ClassINET\<rparr>"
  have h1: "FallbackDNS sampleConfig = ''''"
    by (simp add: sampleConfig_def)
  have h2: "Question (sampleQuery ''b.test.'' TypeA) = [?q]"
    by (simp add: sampleQuery_def)
  have h3: "Records sampleConfig (lookupKey sampleLibs ?q) = None"
    by (simp add: sampleConfig_def lookupKey_def ToLower_def TrimSuffix_def HasSuffix_def
        isASCII_def isUpperASCII_def)
  from C3_absent_name_no_fallback_nxdomain [OF h1 h2 h3, of "''udp''" "([], [])"] h1 h2 h3
  show ?thesis by simp
qed

text \<open>
  Claim C1, as stated (NOTIMP for a question that is not of type A, without a fallback),
  fails: the handler has no NOTIMP branch. An MX question against a configuration with an
  empty fallback falls through to the relay branch, which answers NXDOMAIN.
\<close>

theorem C1_non_address_no_fallback_not_notimp:
  "FallbackDNS sampleConfig = ''''
   \<and> Question (sampleQuery ''a.test.'' TypeMX) = [\<lparr>Name = ''a.test.'', Qtype = TypeMX, Qclass = ClassINET\<rparr>]
   \<and> TypeMX \<noteq> TypeA
   \<and> Rcode (fst (handleDNSRequest sampleLibs sampleConfig ''udp'' (sampleQuery ''a.test.'' TypeMX) ([], [])))
       = RcodeNameError
   \<and> Rcode (fst (handleDNSRequest sampleLibs sampleConfig ''udp'' (sampleQuery ''a.test.'' TypeMX) ([], [])))
       \<noteq> RcodeNotImplemented"
  by (simp add: sampleConfig_def sampleQuery_def handleDNSRequest_def handleQuestion_def
      initialReply_def SetReply_def newMsg_def)

text \<open>
  Claim C1, amended. With an empty fallback, a message whose single question is not of
  type A is answered with NXDOMAIN (\<^verbatim>\<open>RcodeNameError\<close>), with no answer record
  and no exchange.
\<close>

theorem C1_non_address_no_fallback_nxdomain:
  assumes "FallbackDNS config = ''''"
    and "Question r = [q]"
    and "Qtype q \<noteq> TypeA"
  shows "Rcode (fst (handleDNSRequest L config net r w)) = RcodeNameError
       \<and> Answer (fst (handleDNSRequest L config net r w)) = []
       \<and> snd (handleDNSRequest L config net r w) = w"
  using assms
  by (simp add: handleDNSRequest_single handleQuestion_def initialReply_fields)

theorem C1_non_address_no_fallback_nxdomain_witness:
  "FallbackDNS sampleConfig = ''''
   \<and> Question (sampleQuery ''a.test.'' TypeMX) = [\<lparr>Name = ''a.test.'', Qtype = TypeMX, Qclass = ClassINET\<rparr>]
   \<and> Qtype \<lparr>Name = ''a.test.'', Qtype = TypeMX, Qclass = ClassINET\<rparr> \<noteq> TypeA
   \<and> Rcode (fst (handleDNSRequest sampleLibs sampleConfig ''tcp'' (sampleQuery ''a.test.'' TypeMX) ([], [])))
       = RcodeNameError
   \<and> Answer (fst (handleDNSRequest sampleLibs sampleConfig ''tcp'' (sampleQuery ''a.test.'' TypeMX) ([], [])))
       = []
   \<and> snd (handleDNSRequest sampleLibs sampleConfig ''tcp'' (sampleQuery ''a.test.'' TypeMX) ([], []))
       = ([], [])"
proof -
  let ?q = "\<lparr>Name = ''a.test.'', Qtype = TypeMX, Qclass = ClassINET\<rparr>"
  have h1: "FallbackDNS sampleConfig = ''''"
    by (simp add: sampleConfig_def)
  have h2: "Question (sampleQuery ''a.test.'' TypeMX) = [?q]"
    by (simp add: sampleQuery_def)
  have h3: "Qtype ?q \<noteq> TypeA"
    by simp
  from C1_non_address_no_fallback_nxdomain [OF h1 h2 h3, of sampleLibs "''tcp''" "([], [])"] h1 h2 h3
  show ?thesis by simp
qed

text \<open>
  Claim C2. A message with exactly one question of type A whose name, lower-cased and
  with one trailing dot stripped, is a key of the records, bound to an address from which
  \<^verbatim>\<open>dns.NewRR\<close> builds the record \<^verbatim>\<open>"<name> A <ip>"\<close>, is answered with NOERROR and
  exactly that one answer record, whatever the fallback; no exchange takes place. The
  record is built from the name as it was queried.
\<close>

theorem C2_local_match_answered:
  assumes "Question r = [q]"
    and "Qtype q = TypeA"
    and "Records config (ToLower L (TrimSuffix (Name q) ''.'')) = Some ip"
    and "NewRR L (Name q @ '' A '' @ ip) = Some rr"
  shows "Rcode (fst (handleDNSRequest L config net r w)) = RcodeSuccess
       \<and> Answer (fst (handleDNSRequest L config net r w)) = [rr]
       \<and> snd (handleDNSRequest L config net r w) = w"
  using assms
  by (simp add: handleDNSRequest_single handleQuestion_def lookupKey_def initialReply_fields)

theorem C2_local_match_answered_witness:
  "Question (sampleQuery ''A.Test.'' TypeA) = [\<lparr>Name = ''A.Test.'', Qtype = TypeA, Qclass = ClassINET\<rparr>]
   \<and> ToLower sampleLibs (TrimSuffix ''A.Test.'' ''.'') = ''a.test''
   \<and> Records sampleConfig ''a.test'' = Some ''10.0.0.1''
   \<and> NewRR sampleLibs (''A.Test.'' @ '' A '' @ ''10.0.0.1'') = Some ''A.Test. A 10.0.0.1''
   \<and> Rcode (fst (handleDNSRequest sampleLibs sampleConfig ''udp'' (sampleQuery ''A.Test.'' TypeA) ([], [])))
       = RcodeSuccess
   \<and> Answer (fst (handleDNSRequest sampleLibs sampleConfig ''udp'' (sampleQuery ''A.Test.'' TypeA) ([], [])))
       = [''A.Test. A 10.0.0.1'']"
proof -
  let ?q = "\<lparr>Name = ''A.Test.'', Qtype = TypeA, Qclass = ClassINET\<rparr>"
  have h1: "Question (sampleQuery ''A.Test.'' TypeA) = [?q]"
    by (simp add: sampleQuery_def)
  have h2: "Qtype ?q = TypeA"
    by simp
  have k: "ToLower sampleLibs (TrimSuffix ''A.Test.'' ''.'') = ''a.test''"
    by (simp add: ToLower_def TrimSuffix_def HasSuffix_def isASCII_def isUpperASCII_def
        lowerASCII_def char_of_eq_iff)
  have h3: "Records sampleConfig (ToLower sampleLibs (TrimSuffix (Name ?q) ''.'')) = Some ''10.0.0.1''"
    using k by (simp add: sampleConfig_def)
  have h4: "NewRR sampleLibs (Name ?q @ '' A '' @ ''10.0.0.1'') = Some ''A.Test. A 10.0.0.1''"
    by (simp add: sampleLibs_def sampleNewRR_def)
  from C2_local_match_answered [OF h1 h2 h3 h4, of "''udp''" "([], [])"] h1 k h3 h4
  show ?thesis by simp
qed

text \<open>
  Claim C7, as stated (SERVFAIL if and only if the local record cannot be built or the
  relay exchange fails), fails in the direction from the response code to its cause: an
  exchange that succeeds with an upstream reply whose own response code is SERVFAIL is
  passed on as it is. Here an MX question is relayed, the exchange succeeds, and the
  reply carries SERVFAIL.
\<close>

theorem C7_servfail_from_upstream_reply:
  "\<not> (Rcode (fst (handleDNSRequest sampleLibs sampleFallbackConfig ''udp''
                 (sampleQuery ''a.test.'' TypeMX) ([], [Some (sampleUpstream RcodeServerFailure [])])))
        = RcodeServerFailure
      \<longleftrightarrow>
        localRecordFails sampleLibs sampleFallbackConfig
          \<lparr>Name = ''a.test.'', Qtype = TypeMX, Qclass = ClassINET\<rparr>
      \<or> (relayed sampleLibs sampleFallbackConfig
            \<lparr>Name = ''a.test.'', Qtype = TypeMX, Qclass = ClassINET\<rparr>
         \<and> relayResult sampleLibs sampleFallbackConfig ''udp'' (sampleQuery ''a.test.'' TypeMX)
              ([], [Some (sampleUpstream RcodeServerFailure [])]) = None))"
  by (simp add: sampleFallbackConfig_def sampleConfig_def sampleQuery_def handleDNSRequest_def
      handleQuestion_def initialReply_def SetReply_def newMsg_def sampleLibs_def
      sampleExchange_def sampleUpstream_def localRecordFails_def relayed_def relayResult_def)

text \<open>
  Claim C7, amended. For a message with exactly one question, the reply carries SERVFAIL
  if and only if the question is an A question with a local match whose record
  \<^verbatim>\<open>dns.NewRR\<close> cannot build, or the question was relayed and the exchange failed, or
  the question was relayed and the exchange succeeded with an upstream reply that itself
  carries SERVFAIL. The handler is a total function: in each case it returns a reply.
\<close>

theorem C7_servfail_iff:
  assumes "Question r = [q]"
  shows "Rcode (fst (handleDNSRequest L config net r w)) = RcodeServerFailure
     \<longleftrightarrow> localRecordFails L config q
       \<or> (relayed L config q \<and> relayResult L config net r w = None)
       \<or> (relayed L config q
          \<and> (\<exists>upstream. relayResult L config net r w = Some upstream
                \<and> Rcode upstream = RcodeServerFailure))"
  using assms
  by (auto simp add: handleDNSRequest_single handleQuestion_def initialReply_fields
      localRecordFails_def relayed_def relayResult_def localMatch_def Let_def
      split: option.splits prod.splits if_splits)

theorem C7_servfail_iff_witness:
  "Question (sampleQuery ''bad.test.'' TypeA) = [\<lparr>Name = ''bad.test.'', Qtype = TypeA, Qclass = ClassINET\<rparr>]
   \<and> localRecordFails sampleLibs sampleConfig \<lparr>Name = ''bad.test.'', Qtype = TypeA, Qclass = ClassINET\<rparr>
   \<and> Rcode (fst (handleDNSRequest sampleLibs sampleConfig ''udp'' (sampleQuery ''bad.test.'' TypeA) ([], [])))
       = RcodeServerFailure"
proof -
  let ?q = "\<lparr>Name = ''bad.test.'', Qtype = TypeA, Qclass = ClassINET\<rparr>"
  have h1: "Question (sampleQuery ''bad.test.'' TypeA) = [?q]"
    by (simp add: sampleQuery_def)
  have k: "lookupKey sampleLibs ?q = ''bad.test''"
    by (simp add: lookupKey_def ToLower_def TrimSuffix_def HasSuffix_def isASCII_def
        isUpperASCII_def)
  have h2: "localRecordFails sampleLibs sampleConfig ?q"
    using k by (simp add: localRecordFails_def sampleConfig_def sampleLibs_def sampleNewRR_def)
  from C7_servfail_iff [OF h1, of sampleLibs sampleConfig "''udp''" "([], [])"] h1 h2
  show ?thesis by simp
qed

text \<open>
  Claim C8. With a non-empty fallback, a message with exactly one question that has no
  local match makes exactly one exchange: the incoming message itself, as received, to the
  address \<^verbatim>\<open>fallbackDNS+":53"\<close>, over the network of the requester. When the exchange
  succeeds, the reply is the upstream message as returned, whole; when it fails, the
  reply is the initial reply with SERVFAIL.
\<close>

theorem C8_relay_verbatim:
  assumes "FallbackDNS config \<noteq> ''''"
    and "Question r = [q]"
    and "\<not> localMatch L config q"
  shows "handleDNSRequest L config net r w =
     (case Exchange L net r (FallbackDNS config @ '':53'') w of
        (Some upstream, w') \<Rightarrow> (upstream, w')
      | (None, w') \<Rightarrow> ((initialReply r)\<lparr>Rcode := RcodeServerFailure\<rparr>, w'))"
  using assms
  by (auto simp add: handleDNSRequest_single handleQuestion_def localMatch_def Let_def
      split: option.splits prod.splits if_splits)

theorem C8_relay_verbatim_witness:
  "FallbackDNS sampleFallbackConfig \<noteq> ''''
   \<and> Question (sampleQuery ''a.test.'' TypeMX) = [\<lparr>Name = ''a.test.'', Qtype = TypeMX, Qclass = ClassINET\<rparr>]
   \<and> \<not> localMatch sampleLibs sampleFallbackConfig \<lparr>Name = ''a.test.'', Qtype = TypeMX, Qclass = ClassINET\<rparr>
   \<and> handleDNSRequest sampleLibs sampleFallbackConfig ''tcp'' (sampleQuery ''a.test.'' TypeMX)
        ([], [Some (sampleUpstream RcodeSuccess [''a.test. MX 10 mail.a.test.''])])
      = (sampleUpstream RcodeSuccess [''a.test. MX 10 mail.a.test.''],
         ([(''tcp'', sampleQuery ''a.test.'' TypeMX, ''10.0.0.53:53'')], []))"
proof -
  let ?q = "\<lparr>Name = ''a.test.'', Qtype = TypeMX, Qclass = ClassINET\<rparr>"
  have h1: "FallbackDNS sampleFallbackConfig \<noteq> ''''"
    by (simp add: sampleFallbackConfig_def)
  have h2: "Question (sampleQuery ''a.test.'' TypeMX) = [?q]"
    by (simp add: sampleQuery_def)
  have h3: "\<not> localMatch sampleLibs sampleFallbackConfig ?q"
    by (simp add: localMatch_def)
  have e: "Exchange sampleLibs ''tcp'' (sampleQuery ''a.test.'' TypeMX)
             (FallbackDNS sampleFallbackConfig @ '':53'')
             ([], [Some (sampleUpstream RcodeSuccess [''a.test. MX 10 mail.a.test.''])])
           = (Some (sampleUpstream RcodeSuccess [''a.test. MX 10 mail.a.test.'']),
              ([(''tcp'', sampleQuery ''a.test.'' TypeMX, ''10.0.0.53:53'')], []))"
    by (simp add: sampleLibs_def sampleExchange_def sampleFallbackConfig_def)
  from C8_relay_verbatim [OF h1 h2 h3, of "''tcp''"
      "([], [Some (sampleUpstream RcodeSuccess [''a.test. MX 10 mail.a.test.''])])"] e h1 h2 h3
  show ?thesis by simp
qed

text \<open>
  Claim C9, as stated (the final reply equals the upstream response of the last relayed
  question), fails when a question follows the last successful relay: the loop goes on
  with the upstream message as the reply. Here two MX questions are relayed with success
  and a third question is answered from the records; the reply is the second upstream
  message with the local answer appended, not the second upstream message.
\<close>

theorem C9_reply_not_last_upstream:
  "relayed sampleLibs sampleFallbackConfig \<lparr>Name = ''x.test.'', Qtype = TypeMX, Qclass = ClassINET\<rparr>
   \<and> relayed sampleLibs sampleFallbackConfig \<lparr>Name = ''y.test.'', Qtype = TypeMX, Qclass = ClassINET\<rparr>
   \<and> snd (handleDNSRequest sampleLibs sampleFallbackConfig ''udp'' sampleThreeQuestions
            ([], [Some sampleUpstreamX, Some sampleUpstreamY]))
       = ([(''udp'', sampleThreeQuestions, ''10.0.0.53:53''),
           (''udp'', sampleThreeQuestions, ''10.0.0.53:53'')], [])
   \<and> fst (handleDNSRequest sampleLibs sampleFallbackConfig ''udp'' sampleThreeQuestions
            ([], [Some sampleUpstreamX, Some sampleUpstreamY]))
       = sampleUpstreamY\<lparr>Answer := Answer sampleUpstreamY @ [''a.test. A 10.0.0.1'']\<rparr>
   \<and> fst (handleDNSRequest sampleLibs sampleFallbackConfig ''udp'' sampleThreeQuestions
            ([], [Some sampleUpstreamX, Some sampleUpstreamY]))
       \<noteq> sampleUpstreamY"
proof -
  have k: "lookupKey sampleLibs \<lparr>Name = ''a.test.'', Qtype = TypeA, Qclass = ClassINET\<rparr> = ''a.test''"
    by (simp add: lookupKey_def ToLower_def TrimSuffix_def HasSuffix_def isASCII_def
        isUpperASCII_def)
  show ?thesis
    using k
    by (simp add: relayed_def localMatch_def sampleFallbackConfig_def sampleConfig_def
        sampleThreeQuestions_def sampleQueries_def handleDNSRequest_def handleQuestion_def
        sampleLibs_def sampleExchange_def sampleNewRR_def sampleUpstreamX_def
        sampleUpstreamY_def sampleUpstream_def newMsg_def)
qed

text \<open>
  Claim C9, amended. When a question of the message is relayed with success, the reply
  built so far (answers appended, response codes set, an earlier upstream message) is
  dropped: the final reply is what the loop over the questions after it makes of the
  upstream message of that relay. So the reply is the upstream message of the last
  successful relay, with the answers of later local matches appended and the response
  code overwritten by later failures; when that relay is the last question, the reply is
  its upstream message.
\<close>

theorem C9_last_successful_relay_wins:
  assumes "Question r = qs1 @ q # qs2"
    and "relayed L config q"
    and "handleQuestions L config net r qs1 (initialReply r, w) = (m1, w1)"
    and "Exchange L net r (FallbackDNS config @ '':53'') w1 = (Some upstream, w2)"
  shows "handleDNSRequest L config net r w = handleQuestions L config net r qs2 (upstream, w2)"
  using assms
  by (auto simp add: handleDNSRequest_def handleQuestions_append handleQuestion_def
      relayed_def localMatch_def Let_def split: option.splits)

theorem C9_last_successful_relay_wins_witness:
  "Question sampleThreeQuestions =
     [\<lparr>Name = ''x.test.'', Qtype = TypeMX, Qclass = ClassINET\<rparr>]
     @ \<lparr>Name = ''y.test.'', Qtype = TypeMX, Qclass = ClassINET\<rparr>
     # [\<lparr>Name = ''a.test.'', Qtype = TypeA, Qclass = ClassINET\<rparr>]
   \<and> relayed sampleLibs sampleFallbackConfig \<lparr>Name = ''y.test.'', Qtype = TypeMX, Qclass = ClassINET\<rparr>
   \<and> handleDNSRequest sampleLibs sampleFallbackConfig ''udp'' sampleThreeQuestions
        ([], [Some sampleUpstreamX, Some sampleUpstreamY])
      = handleQuestions sampleLibs sampleFallbackConfig ''udp'' sampleThreeQuestions
          [\<lparr>Name = ''a.test.'', Qtype = TypeA, Qclass = ClassINET\<rparr>]
          (sampleUpstreamY,
           ([(''udp'', sampleThreeQuestions, ''10.0.0.53:53''),
             (''udp'', sampleThreeQuestions, ''10.0.0.53:53'')], []))"
proof -
  let ?qx = "\<lparr>Name = ''x.test.'', Qtype = TypeMX, Qclass = ClassINET\<rparr>"
  let ?qy = "\<lparr>Name = ''y.test.'', Qtype = TypeMX, Qclass = ClassINET\<rparr>"
  let ?qa = "\<lparr>Name = ''a.test.'', Qtype = TypeA, Qclass = ClassINET\<rparr>"
  let ?sent = "(''udp'', sampleThreeQuestions, ''10.0.0.53:53'')"
  have h1: "Question sampleThreeQuestions = [?qx] @ ?qy # [?qa]"
    by (simp add: sampleThreeQuestions_def sampleQueries_def)
  have h2: "relayed sampleLibs sampleFallbackConfig ?qy"
    by (simp add: relayed_def localMatch_def sampleFallbackConfig_def)
  have h3: "handleQuestions sampleLibs sampleFallbackConfig ''udp'' sampleThreeQuestions [?qx]
              (initialReply sampleThreeQuestions, ([], [Some sampleUpstreamX, Some sampleUpstreamY]))
            = (sampleUpstreamX, ([?sent], [Some sampleUpstreamY]))"
    by (simp add: handleQuestion_def sampleFallbackConfig_def sampleLibs_def sampleExchange_def)
  have h4: "Exchange sampleLibs ''udp'' sampleThreeQuestions
              (FallbackDNS sampleFallbackConfig @ '':53'') ([?sent], [Some sampleUpstreamY])
            = (Some sampleUpstreamY, ([?sent, ?sent], []))"
    by (simp add: sampleFallbackConfig_def sampleLibs_def sampleExchange_def)
  from C9_last_successful_relay_wins [OF h1 h2 h3 h4] h1 h2
  show ?thesis by simp
qed

text \<open>
  Claim C10, as stated, fails for keys with a trailing dot: \<^verbatim>\<open>TrimSuffix\<close> strips one
  dot only, so a name that ends in two dot bytes is looked up under a key that ends in
  one. The name \<^verbatim>\<open>a.test\..\<close> (last label \<^verbatim>\<open>test.\<close>) reaches the key \<^verbatim>\<open>a.test\.\<close> and
  is answered from the records.
\<close>

theorem C10_trailing_dot_key_reached:
  "HasSuffix escapedDotKey ''.''
   \<and> Records sampleDotConfig escapedDotKey = Some ''10.0.0.1''
   \<and> lookupKey sampleLibs \<lparr>Name = escapedDotName, Qtype = TypeA, Qclass = ClassINET\<rparr>
       = escapedDotKey
   \<and> Rcode (fst (handleDNSRequest sampleLibs sampleDotConfig ''udp''
                   (sampleQuery escapedDotName TypeA) ([], []))) = RcodeSuccess
   \<and> Answer (fst (handleDNSRequest sampleLibs sampleDotConfig ''udp''
                   (sampleQuery escapedDotName TypeA) ([], [])))
       = [escapedDotName @ '' A 10.0.0.1'']"
proof -
  have k: "lookupKey sampleLibs \<lparr>Name = escapedDotName, Qtype = TypeA, Qclass = ClassINET\<rparr>
       = escapedDotKey"
    by (simp add: lookupKey_def ToLower_def TrimSuffix_def HasSuffix_def isASCII_def
        isUpperASCII_def escapedDotName_def escapedDotKey_def)
  have s: "HasSuffix escapedDotKey ''.''"
    by (simp add: HasSuffix_def escapedDotKey_def)
  show ?thesis
    using k s
    by (simp add: sampleDotConfig_def sampleQuery_def handleDNSRequest_def handleQuestion_def
        initialReply_def SetReply_def newMsg_def sampleLibs_def sampleNewRR_def
        escapedDotName_def)
qed

text \<open>
  Claim C10, amended. The lookup key is computed from the question only; the configured
  keys are compared as they are. A key with an upper-case ASCII letter is never looked
  up, whatever the name of the question (given that \<^verbatim>\<open>strings.Map(unicode.ToLower, s)\<close>
  yields no upper-case ASCII letter): the handler answers every message as if the key
  were not in the records. The same holds for a key with a trailing dot on every message
  whose question names are ASCII and do not end in two dots.
\<close>

theorem C10_unreachable_keys:
  assumes "(list_ex isUpperASCII k \<and> (\<forall>s. \<not> list_ex isUpperASCII (MapToLower L s)))
         \<or> (HasSuffix k ''.''
            \<and> list_all (\<lambda>q. list_all isASCII (Name q) \<and> \<not> HasSuffix (Name q) ''..'') (Question r))"
  shows "list_all (\<lambda>q. lookupKey L q \<noteq> k) (Question r)
       \<and> handleDNSRequest L (config\<lparr>Records := (Records config)(k := None)\<rparr>) net r w =
         handleDNSRequest L config net r w"
proof -
  have keys: "list_all (\<lambda>q. lookupKey L q \<noteq> k) (Question r)"
    using assms
  proof
    assume "list_ex isUpperASCII k \<and> (\<forall>s. \<not> list_ex isUpperASCII (MapToLower L s))"
    then show ?thesis
      by (simp add: list_all_iff lookupKey_upper)
  next
    assume "HasSuffix k ''.''
            \<and> list_all (\<lambda>q. list_all isASCII (Name q) \<and> \<not> HasSuffix (Name q) ''..'') (Question r)"
    then have dot: "HasSuffix k ''.''"
      and names: "\<forall>q \<in> set (Question r).
                    list_all isASCII (Name q) \<and> \<not> HasSuffix (Name q) ''..''"
      by (simp_all add: list_all_iff [of _ "Question r"])
    have "\<forall>q \<in> set (Question r). lookupKey L q \<noteq> k"
    proof
      fix q
      assume "q \<in> set (Question r)"
      with names have "list_all isASCII (Name q)" and "\<not> HasSuffix (Name q) ''..''"
        by blast+
      with dot show "lookupKey L q \<noteq> k"
        by (rule lookupKey_dot)
    qed
    then show ?thesis
      by (simp add: list_all_iff [of _ "Question r"])
  qed
  then show ?thesis
    by (simp add: handleDNSRequest_def handleQuestions_remove_key)
qed

theorem C10_unreachable_keys_witness:
  "list_ex isUpperASCII ''A.Test''
   \<and> (\<forall>s. \<not> list_ex isUpperASCII (MapToLower sampleLibs s))
   \<and> Records sampleUpperConfig ''A.Test'' = Some ''10.0.0.2''
   \<and> lookupKey sampleLibs \<lparr>Name = ''A.Test.'', Qtype = TypeA, Qclass = ClassINET\<rparr> \<noteq> ''A.Test''
   \<and> handleDNSRequest sampleLibs
        (sampleUpperConfig\<lparr>Records := (Records sampleUpperConfig)(''A.Test'' := None)\<rparr>)
        ''udp'' (sampleQuery ''A.Test.'' TypeA) ([], [])
      = handleDNSRequest sampleLibs sampleUpperConfig ''udp'' (sampleQuery ''A.Test.'' TypeA) ([], [])
   \<and> HasSuffix ''a.test.'' ''.''
   \<and> list_all isASCII ''a.test.'' \<and> \<not> HasSuffix ''a.test.'' ''..''
   \<and> Records sampleUpperConfig ''a.test.'' = Some ''10.0.0.3''
   \<and> lookupKey sampleLibs \<lparr>Name = ''a.test.'', Qtype = TypeA, Qclass = ClassINET\<rparr> \<noteq> ''a.test.''
   \<and> handleDNSRequest sampleLibs
        (sampleUpperConfig\<lparr>Records := (Records sampleUpperConfig)(''a.test.'' := None)\<rparr>)
        ''udp'' (sampleQuery ''a.test.'' TypeA) ([], [])
      = handleDNSRequest sampleLibs sampleUpperConfig ''udp'' (sampleQuery ''a.test.'' TypeA) ([], [])"
proof -
  have u1: "list_ex isUpperASCII ''A.Test''"
    by (simp add: isUpperASCII_def)
  have u2: "\<forall>s. \<not> list_ex isUpperASCII (MapToLower sampleLibs s)"
    by (simp add: sampleLibs_def map_lowerASCII_no_upper)
  have d1: "HasSuffix ''a.test.'' ''.''"
    by (simp add: HasSuffix_def)
  have d2: "list_all isASCII ''a.test.''"
    by (simp add: isASCII_def)
  have d3: "\<not> HasSuffix ''a.test.'' ''..''"
    by (simp add: HasSuffix_def)
  have r1: "Records sampleUpperConfig ''A.Test'' = Some ''10.0.0.2''"
    and r2: "Records sampleUpperConfig ''a.test.'' = Some ''10.0.0.3''"
    by (simp_all add: sampleUpperConfig_def)
  have q1: "Question (sampleQuery ''A.Test.'' TypeA)
            = [\<lparr>Name = ''A.Test.'', Qtype = TypeA, Qclass = ClassINET\<rparr>]"
    and q2: "Question (sampleQuery ''a.test.'' TypeA)
            = [\<lparr>Name = ''a.test.'', Qtype = TypeA, Qclass = ClassINET\<rparr>]"
    by (simp_all add: sampleQuery_def)
  have a: "(list_ex isUpperASCII ''A.Test''
             \<and> (\<forall>s. \<not> list_ex isUpperASCII (MapToLower sampleLibs s)))
         \<or> (HasSuffix ''A.Test'' ''.''
            \<and> list_all (\<lambda>q. list_all isASCII (Name q) \<and> \<not> HasSuffix (Name q) ''..'')
                 (Question (sampleQuery ''A.Test.'' TypeA)))"
    using u1 u2 by blast
  have b: "(list_ex isUpperASCII ''a.test.''
             \<and> (\<forall>s. \<not> list_ex isUpperASCII (MapToLower sampleLibs s)))
         \<or> (HasSuffix ''a.test.'' ''.''
            \<and> list_all (\<lambda>q. list_all isASCII (Name q) \<and> \<not> HasSuffix (Name q) ''..'')
                 (Question (sampleQuery ''a.test.'' TypeA)))"
    using d1 d2 d3 by (simp add: q2)
  from C10_unreachable_keys [OF a, of sampleUpperConfig "''udp''" "([], [])"]
    C10_unreachable_keys [OF b, of sampleUpperConfig "''udp''" "([], [])"]
    u1 u2 d1 d2 d3 r1 r2 q1 q2
  show ?thesis by simp
qed

text \<open>
  Claim C4 (startup with both transports disabled in the document is fatal) against the
  code: \<^verbatim>\<open>Enabled\<close> is a \<^verbatim>\<open>bool\<close>, so a document that sets both \<^verbatim>\<open>enabled\<close> flags to
  \<^verbatim>\<open>false\<close> decodes to \<^verbatim>\<open>false\<close>, \<^verbatim>\<open>false\<close>, as does a document that leaves them out; \<^verbatim>\<open>main\<close>
  then enables both, starts two listeners, and does not reach its fatal exit for zero
  servers.
\<close>

theorem C4_both_disabled_starts_both_listeners:
  "Unmarshal sampleLibs sampleDocument = Some zeroConfig
   \<and> \<not> Enabled (ServerUDP zeroConfig) \<and> \<not> Enabled (ServerTCP zeroConfig)
   \<and> main sampleLibs (Some sampleDocument)
      = Serving (zeroConfig\<lparr>ServerUDP := \<lparr>Enabled = True, Port = 53, Interface = ''''\<rparr>,
                            ServerTCP := \<lparr>Enabled = True, Port = 53, Interface = ''''\<rparr>\<rparr>)
          2 [\<lparr>Net = ''udp'', AddrInterface = '''', AddrPort = 53\<rparr>,
             \<lparr>Net = ''tcp'', AddrInterface = '''', AddrPort = 53\<rparr>]
   \<and> main sampleLibs (Some sampleDocument) \<noteq> Fatal NoDNSServersEnabled"
  by (simp add: main_def loadConfig_def sampleLibs_def sampleUnmarshal_def zeroConfig_def
      zeroServerConfig_def applyPortDefaults_def applyEnabledDefault_def Let_def)

text \<open>
  Claim C5, as stated (every load, reloads included, enables both transports when neither
  is enabled), fails: \<^verbatim>\<open>loadConfig\<close> defaults the ports only. A reload of a document
  that enables neither transport succeeds and stores a configuration with both disabled.
\<close>

theorem C5_reload_leaves_transports_disabled:
  "fst (loadConfig sampleLibs (Some sampleDocument) sampleConfig) = None
   \<and> \<not> Enabled (ServerUDP (snd (loadConfig sampleLibs (Some sampleDocument) sampleConfig)))
   \<and> \<not> Enabled (ServerTCP (snd (loadConfig sampleLibs (Some sampleDocument) sampleConfig)))
   \<and> \<not> Enabled (ServerUDP (watchConfigEvent sampleLibs {Write} (Some sampleDocument) sampleConfig))
   \<and> \<not> Enabled (ServerTCP (watchConfigEvent sampleLibs {Write} (Some sampleDocument) sampleConfig))"
  by (simp add: watchConfigEvent_def loadConfig_def sampleLibs_def sampleUnmarshal_def
      zeroConfig_def zeroServerConfig_def applyPortDefaults_def Let_def)

text \<open>
  Claim C5, amended. Every successful load, the initial one and each reload of the
  watcher, stores the decoded configuration with each transport's port set to 53 when it
  is zero (unspecified) or negative, and with the enabled flags as decoded. The default
  that enables both transports when neither is enabled is applied by \<^verbatim>\<open>main\<close>, after the
  initial load only: the configuration \<^verbatim>\<open>main\<close> starts its listeners from has it.
\<close>

theorem C5_load_applies_port_defaults:
  assumes "Unmarshal L data = Some newConfig"
  shows "loadConfig L (Some data) config = (None, applyPortDefaults newConfig)
       \<and> watchConfigEvent L {Write} (Some data) config = applyPortDefaults newConfig
       \<and> Port (ServerUDP (applyPortDefaults newConfig))
           = (if Port (ServerUDP newConfig) \<le> 0 then 53 else Port (ServerUDP newConfig))
       \<and> Port (ServerTCP (applyPortDefaults newConfig))
           = (if Port (ServerTCP newConfig) \<le> 0 then 53 else Port (ServerTCP newConfig))
       \<and> Enabled (ServerUDP (applyPortDefaults newConfig)) = Enabled (ServerUDP newConfig)
       \<and> Enabled (ServerTCP (applyPortDefaults newConfig)) = Enabled (ServerTCP newConfig)
       \<and> (\<exists>servers started.
            main L (Some data)
            = Serving (applyEnabledDefault (applyPortDefaults newConfig)) servers started)
       \<and> Enabled (ServerUDP (applyEnabledDefault (applyPortDefaults newConfig)))
           = (if \<not> Enabled (ServerUDP newConfig) \<and> \<not> Enabled (ServerTCP newConfig)
              then True else Enabled (ServerUDP newConfig))
       \<and> Enabled (ServerTCP (applyEnabledDefault (applyPortDefaults newConfig)))
           = (if \<not> Enabled (ServerUDP newConfig) \<and> \<not> Enabled (ServerTCP newConfig)
              then True else Enabled (ServerTCP newConfig))"
proof -
  have load: "loadConfig L (Some data) config = (None, applyPortDefaults newConfig)"
    using assms by (simp add: loadConfig_def)
  have start: "\<exists>servers started.
      main L (Some data) = Serving (applyEnabledDefault (applyPortDefaults newConfig)) servers started"
    using assms
    by (simp add: main_def loadConfig_def applyPortDefaults_idem applyEnabledDefault_def
        applyPortDefaults_fields Let_def split: prod.splits)
  from load start show ?thesis
    by (simp add: watchConfigEvent_def applyPortDefaults_fields applyEnabledDefault_def)
qed

theorem C5_load_applies_port_defaults_witness:
  "Unmarshal sampleLibs sampleDocument2
     = Some (zeroConfig\<lparr>Records := [''a.test'' \<mapsto> ''10.0.0.1''],
               ServerUDP := \<lparr>Enabled = True, Port = 5353, Interface = ''''\<rparr>\<rparr>)
   \<and> loadConfig sampleLibs (Some sampleDocument2) sampleConfig
     = (None, zeroConfig\<lparr>Records := [''a.test'' \<mapsto> ''10.0.0.1''],
               ServerUDP := \<lparr>Enabled = True, Port = 5353, Interface = ''''\<rparr>,
               ServerTCP := \<lparr>Enabled = False, Port = 53, Interface = ''''\<rparr>\<rparr>)"
proof -
  let ?doc = "zeroConfig\<lparr>Records := [''a.test'' \<mapsto> ''10.0.0.1''],
               ServerUDP := \<lparr>Enabled = True, Port = 5353, Interface = ''''\<rparr>\<rparr>"
  have h: "Unmarshal sampleLibs sampleDocument2 = Some ?doc"
    by (simp add: sampleLibs_def sampleUnmarshal_def sampleDocument_def sampleDocument2_def)
  have d: "applyPortDefaults ?doc
           = zeroConfig\<lparr>Records := [''a.test'' \<mapsto> ''10.0.0.1''],
               ServerUDP := \<lparr>Enabled = True, Port = 5353, Interface = ''''\<rparr>,
               ServerTCP := \<lparr>Enabled = False, Port = 53, Interface = ''''\<rparr>\<rparr>"
    by (simp add: applyPortDefaults_def zeroConfig_def zeroServerConfig_def Let_def)
  from C5_load_applies_port_defaults [OF h, of sampleConfig] h d
  show ?thesis by simp
qed

text \<open>
  Claim C6. When the file cannot be read or its content cannot be decoded,
  \<^verbatim>\<open>loadConfig\<close> returns an error and leaves the stored configuration as it was; the
  watcher drops the error, so after the event the configuration is the one before it and
  the handler answers every message as before.
\<close>

theorem C6_failed_reload_keeps_snapshot:
  assumes "file = None \<or> (\<exists>data. file = Some data \<and> Unmarshal L data = None)"
  shows "fst (loadConfig L file config) \<noteq> None
       \<and> snd (loadConfig L file config) = config
       \<and> watchConfigEvent L event file config = config
       \<and> handleDNSRequest L (watchConfigEvent L event file config) net r w
           = handleDNSRequest L config net r w"
  using assms
  by (auto simp add: loadConfig_def watchConfigEvent_def)

theorem C6_failed_reload_keeps_snapshot_witness:
  "Unmarshal sampleLibs ''records: ['' = None
   \<and> loadConfig sampleLibs (Some ''records: ['') sampleConfig = (Some UnmarshalError, sampleConfig)
   \<and> watchConfigEvent sampleLibs {Write} (Some ''records: ['') sampleConfig = sampleConfig
   \<and> loadConfig sampleLibs None sampleConfig = (Some ReadError, sampleConfig)
   \<and> watchConfigEvent sampleLibs {Create} None sampleConfig = sampleConfig"
proof -
  have u: "Unmarshal sampleLibs ''records: ['' = None"
    by (simp add: sampleLibs_def sampleUnmarshal_def sampleDocument_def sampleDocument2_def)
  have h1: "Some ''records: ['' = None
            \<or> (\<exists>data. Some ''records: ['' = Some data \<and> Unmarshal sampleLibs data = None)"
    using u by simp
  have h2: "(None :: string option) = None
            \<or> (\<exists>data. None = Some data \<and> Unmarshal sampleLibs data = None)"
    by simp
  have e1: "fst (loadConfig sampleLibs (Some ''records: ['') sampleConfig) = Some UnmarshalError"
    using u by (simp add: loadConfig_def)
  have e2: "fst (loadConfig sampleLibs None sampleConfig) = Some ReadError"
    by (simp add: loadConfig_def)
  from C6_failed_reload_keeps_snapshot [OF h1, of sampleConfig "{Write}"]
    C6_failed_reload_keeps_snapshot [OF h2, of sampleConfig "{Create}"] u e1 e2
  show ?thesis by (simp add: prod_eq_iff)
qed

end
